theory Spec2Isabelle
  imports Complex_Main "HOL-Library.Sublist"
begin

section \<open>Values of the uploaded rows\<close>

text \<open>
  Project and invoice rows reach the front end as parsed JSON, so a cell is undefined
  (the key is missing), null, a boolean, a finite number or a string. A number is
  modelled by its exact rational value. The monthly aggregation is modelled with exact
  sums; the quarterly rollup, whose claim compares two orders of adding the same values,
  adds as the code does, in IEEE double arithmetic (section on the quarterly rollup).
\<close>

datatype jsval = JUndefined | JNull | JBool bool | JNum rat | JStr string

text \<open>JavaScript truthiness, as used by \<open>!v\<close>, \<open>v && ...\<close> and \<open>v || ...\<close>.\<close>

fun truthy :: "jsval \<Rightarrow> bool" where
  "truthy JUndefined = False"
| "truthy JNull = False"
| "truthy (JBool b) = b"
| "truthy (JNum x) = (x \<noteq> 0)"
| "truthy (JStr s) = (s \<noteq> [])"

text \<open>
  Built-ins of the JavaScript host that the source calls and that are not part of the
  repository are parameters of the model:
  \<^item> \<open>Date\<close>: \<open>new Date(v)\<close>, read through \<open>getTime\<close>, \<open>getFullYear\<close> and \<open>getMonth\<close>;
    \<open>None\<close> is an invalid date, \<open>Some (y, m)\<close> a valid one with full year \<open>y\<close> and
    zero-based month \<open>m\<close>;
  \<^item> \<open>StringToNumber\<close>: the numeric value of a string under \<open>isNaN\<close> and \<open>>=\<close>,
    \<open>None\<close> for NaN;
  \<^item> \<open>NumberToString\<close>: \<open>String(x)\<close> of a number;
  \<^item> \<open>ParseInt\<close>: \<open>parseInt\<close> of a string, \<open>None\<close> for NaN;
  \<^item> \<open>PrototypeText\<close>: for the name of a function that every object inherits from
    \<open>Object.prototype\<close> (\<open>constructor\<close>, \<open>toString\<close>, ...), the text of that function;
    \<open>None\<close> for every other name.
\<close>

record host =
  Date :: "jsval \<Rightarrow> (int \<times> nat) option"
  StringToNumber :: "string \<Rightarrow> rat option"
  NumberToString :: "rat \<Rightarrow> string"
  ParseInt :: "string \<Rightarrow> int option"
  PrototypeText :: "string \<Rightarrow> string option"

text \<open>\<open>String(v)\<close>.\<close>

fun js_String :: "host \<Rightarrow> jsval \<Rightarrow> string" where
  "js_String h JUndefined = ''undefined''"
| "js_String h JNull = ''null''"
| "js_String h (JBool b) = (if b then ''true'' else ''false'')"
| "js_String h (JNum x) = NumberToString h x"
| "js_String h (JStr s) = s"

text \<open>\<open>a || b\<close> on values.\<close>

definition js_or :: "jsval \<Rightarrow> jsval \<Rightarrow> jsval" where
  "js_or a b = (if truthy a then a else b)"

text \<open>The decimal text of the selected year inside a template literal.\<close>

fun string_of_nat :: "nat \<Rightarrow> string" where
  "string_of_nat n =
     (if n < 10 then [''0123456789'' ! n]
      else string_of_nat (n div 10) @ [''0123456789'' ! (n mod 10)])"

declare string_of_nat.simps [simp del]

definition string_of_int :: "int \<Rightarrow> string" where
  "string_of_int y = (if y < 0 then CHR ''-'' # string_of_nat (nat (- y)) else string_of_nat (nat y))"

definition months :: "string list" where
  "months = [''Jan'', ''Feb'', ''Mar'', ''Apr'', ''May'', ''Jun'',
             ''Jul'', ''Aug'', ''Sep'', ''Oct'', ''Nov'', ''Dec'']"

section \<open>Expected revenue: \<open>calculateMonthlyData\<close>\<close>

text \<open>A project row is an object: a finite map from column names to cells.\<close>

type_synonym project = "string \<rightharpoonup> jsval"

text \<open>\<open>project[key]\<close>: a missing key reads as undefined.\<close>

definition get_field :: "project \<Rightarrow> string \<Rightarrow> jsval" where
  "get_field p k = (case p k of None \<Rightarrow> JUndefined | Some v \<Rightarrow> v)"

text \<open>
  The deduplication loop: \<open>seen\<close> is the \<open>Set\<close> of codes met so far, the result is
  \<open>uniqueData\<close> in the order of its \<open>push\<close> calls. A row with a truthy code already in
  \<open>seen\<close> takes neither branch and is left out.
\<close>

fun dedup_loop :: "jsval set \<Rightarrow> project list \<Rightarrow> project list" where
  "dedup_loop seen [] = []"
| "dedup_loop seen (p # ps) =
     (let projectCode = get_field p ''Project Code'' in
      if truthy projectCode \<and> projectCode \<notin> seen
        then p # dedup_loop (insert projectCode seen) ps
      else if \<not> truthy projectCode
        then p # dedup_loop seen ps
      else dedup_loop seen ps)"

definition uniqueData :: "project list \<Rightarrow> project list" where
  "uniqueData data = dedup_loop {} data"

definition exactFieldName :: "int \<Rightarrow> string \<Rightarrow> string" where
  "exactFieldName selectedYear month = string_of_int selectedYear @ '' '' @ month"

text \<open>
  The inner \<open>months.forEach\<close> for one project: a month's total grows only when the field
  is present and \<open>typeof value === 'number'\<close>.
\<close>

definition add_month :: "int \<Rightarrow> project \<Rightarrow> string \<Rightarrow> (string \<Rightarrow> rat) \<Rightarrow> (string \<Rightarrow> rat)" where
  "add_month selectedYear p month monthlyTotals =
     (case p (exactFieldName selectedYear month) of
        Some (JNum v) \<Rightarrow> monthlyTotals(month := monthlyTotals month + v)
      | _ \<Rightarrow> monthlyTotals)"

definition add_project :: "int \<Rightarrow> project \<Rightarrow> (string \<Rightarrow> rat) \<Rightarrow> (string \<Rightarrow> rat)" where
  "add_project selectedYear p monthlyTotals = fold (add_month selectedYear p) months monthlyTotals"

text \<open>\<open>monthlyTotals\<close> after the loop over \<open>workingData\<close>; every month starts at 0.\<close>

definition monthlyTotals :: "int \<Rightarrow> project list \<Rightarrow> (string \<Rightarrow> rat)" where
  "monthlyTotals selectedYear workingData = fold (add_project selectedYear) workingData (\<lambda>_. 0)"

text \<open>The running total pushed into a cumulative array.\<close>

fun running :: "rat \<Rightarrow> rat list \<Rightarrow> rat list" where
  "running runningTotal [] = []"
| "running runningTotal (revenue # rest) =
     (runningTotal + revenue) # running (runningTotal + revenue) rest"

record monthly_state =
  monthlyRevenue :: "rat list"
  cumulativeRevenue :: "rat list"

definition correctValues :: "rat list" where
  "correctValues = [243500, 683500, 1512768, 619640, 891476, 1341405,
                    1020506, 1263522, 881522, 1664908, 1031088, 1887836]"

text \<open>The arrays built from the deduplicated rows, before the override is looked at.\<close>

definition computedRevenue :: "int \<Rightarrow> project list \<Rightarrow> rat list" where
  "computedRevenue selectedYear data =
     map (monthlyTotals selectedYear (uniqueData data)) months"

text \<open>The guard of the emergency override.\<close>

definition override_fires :: "int \<Rightarrow> project list \<Rightarrow> bool" where
  "override_fires selectedYear data =
     (selectedYear = 2025 \<and> \<bar>computedRevenue selectedYear data ! 0 - 243500\<bar> > 10000)"

text \<open>
  \<open>calculateMonthlyData\<close>: \<open>None\<close> is the early return on an empty dataset, which sets no
  state; \<open>Some\<close> carries the argument of \<open>setMonthlyData\<close>.
\<close>

definition calculateMonthlyData :: "int \<Rightarrow> project list \<Rightarrow> monthly_state option" where
  "calculateMonthlyData selectedYear data =
     (if data = [] then None
      else if override_fires selectedYear data
        then Some \<lparr>monthlyRevenue = correctValues, cumulativeRevenue = running 0 correctValues\<rparr>
      else Some \<lparr>monthlyRevenue = computedRevenue selectedYear data,
                 cumulativeRevenue = running 0 (computedRevenue selectedYear data)\<rparr>)"

section \<open>Quarterly rollup: \<open>calculateQuarterlyData\<close>\<close>

subsection \<open>Addition of doubles\<close>

text \<open>
  The sum of two doubles is their exact sum rounded to the nearest double, ties to the
  even significand. \<open>binade a\<close> is the exponent \<open>e\<close> with \<open>2^e \<le> a < 2^(e+1)\<close>, kept
  within -1022 and 1023 (below the range the spacing of the subnormal numbers applies,
  above it the rounded value overflows); the doubles of that binade are the multiples of
  \<open>2^(e-52)\<close>.
\<close>

function binade_up :: "rat \<Rightarrow> int \<Rightarrow> int" where
  "binade_up a e = (if e < 1023 \<and> 2 powi (e + 1) \<le> a then binade_up a (e + 1) else e)"
  by pat_completeness auto
termination
  by (relation "measure (\<lambda>(a, e). nat (1023 - e))") auto

function binade_down :: "rat \<Rightarrow> int \<Rightarrow> int" where
  "binade_down a e = (if - 1022 < e \<and> a < 2 powi e then binade_down a (e - 1) else e)"
  by pat_completeness auto
termination
  by (relation "measure (\<lambda>(a, e). nat (e + 1022))") auto

declare binade_up.simps [simp del] binade_down.simps [simp del]

definition binade :: "rat \<Rightarrow> int" where
  "binade a = (if 1 \<le> a then binade_up a 0 else binade_down a 0)"

definition round_half_even :: "rat \<Rightarrow> int" where
  "round_half_even x =
     (let f = \<lfloor>x\<rfloor>; d = x - of_int f
      in if d < 1 / 2 then f else if 1 / 2 < d then f + 1 else if even f then f else f + 1)"

text \<open>The double nearest to \<open>x\<close>; \<open>None\<close> when the rounded value is beyond the largest double.\<close>

definition double_round :: "rat \<Rightarrow> rat option" where
  "double_round x =
     (if x = 0 then Some 0
      else
        let a = \<bar>x\<bar>;
            ulp = 2 powi (binade a - 52);
            r = of_int (round_half_even (a / ulp)) * ulp
        in if 2 powi 1024 \<le> r then None else Some (if x < 0 then - r else r))"

text \<open>
  A value of the quarterly arrays is \<open>None\<close> when it is not a finite number, that is NaN or
  an infinity: destructuring a monthly array shorter than twelve yields undefined for the
  missing months, \<open>undefined + x\<close> is NaN, a sum beyond the largest double is an infinity,
  and adding anything to a value that is not finite gives a value that is not finite.
\<close>

definition nth_or_undefined :: "rat list \<Rightarrow> nat \<Rightarrow> rat option" where
  "nth_or_undefined xs i = (if i < length xs then Some (xs ! i) else None)"

fun js_plus :: "rat option \<Rightarrow> rat option \<Rightarrow> rat option" where
  "js_plus (Some a) (Some b) = double_round (a + b)"
| "js_plus _ _ = None"

fun running_nan :: "rat option \<Rightarrow> rat option list \<Rightarrow> rat option list" where
  "running_nan runningTotal [] = []"
| "running_nan runningTotal (revenue # rest) =
     js_plus runningTotal revenue # running_nan (js_plus runningTotal revenue) rest"

record quarterly_state =
  quarterlyRevenue :: "rat option list"
  quarterlyCumulative :: "rat option list"

text \<open>
  \<open>calculateQuarterlyData\<close> reads \<open>monthlyData.monthlyRevenue\<close> only; \<open>None\<close> is the early
  return while that array is empty. \<open>selectedYearQuarterly\<close> occurs in its log lines alone,
  so it is no argument of the computation.
\<close>

definition calculateQuarterlyData :: "rat list \<Rightarrow> quarterly_state option" where
  "calculateQuarterlyData mr =
     (if mr = [] then None
      else
        let jan = nth_or_undefined mr 0; feb = nth_or_undefined mr 1; mar = nth_or_undefined mr 2;
            apr = nth_or_undefined mr 3; may = nth_or_undefined mr 4; jun = nth_or_undefined mr 5;
            jul = nth_or_undefined mr 6; aug = nth_or_undefined mr 7; sep = nth_or_undefined mr 8;
            oct = nth_or_undefined mr 9; nov = nth_or_undefined mr 10; dec = nth_or_undefined mr 11;
            qr = [js_plus (js_plus jan feb) mar,
                  js_plus (js_plus apr may) jun,
                  js_plus (js_plus jul aug) sep,
                  js_plus (js_plus oct nov) dec]
        in Some \<lparr>quarterlyRevenue = qr, quarterlyCumulative = running_nan (Some 0) qr\<rparr>)"

subsection \<open>The component state and its effects\<close>

text \<open>
  The two year selectors and the two derived states of \<open>ProjectCharts\<close>. The monthly effect
  depends on \<open>data\<close> and \<open>selectedYear\<close>, the quarterly effect on \<open>monthlyData\<close> and
  \<open>selectedYearQuarterly\<close>; \<open>run_effects\<close> is the state once both have run after a change.
\<close>

record component =
  selectedYear :: int
  selectedYearQuarterly :: int
  monthlyData :: monthly_state
  quarterlyData :: quarterly_state

definition initial_component :: "int \<Rightarrow> int \<Rightarrow> component" where
  "initial_component y yq =
     \<lparr>selectedYear = y, selectedYearQuarterly = yq,
      monthlyData = \<lparr>monthlyRevenue = [], cumulativeRevenue = []\<rparr>,
      quarterlyData = \<lparr>quarterlyRevenue = [], quarterlyCumulative = []\<rparr>\<rparr>"

definition monthly_effect :: "project list \<Rightarrow> component \<Rightarrow> component" where
  "monthly_effect data c =
     (case calculateMonthlyData (selectedYear c) data of
        None \<Rightarrow> c
      | Some md \<Rightarrow> c\<lparr>monthlyData := md\<rparr>)"

definition quarterly_effect :: "component \<Rightarrow> component" where
  "quarterly_effect c =
     (case calculateQuarterlyData (monthlyRevenue (monthlyData c)) of
        None \<Rightarrow> c
      | Some qd \<Rightarrow> c\<lparr>quarterlyData := qd\<rparr>)"

definition run_effects :: "project list \<Rightarrow> component \<Rightarrow> component" where
  "run_effects data c = quarterly_effect (monthly_effect data c)"

section \<open>Payment amounts\<close>

definition is_digit :: "char \<Rightarrow> bool" where
  "is_digit c = (c \<in> set ''0123456789'')"

definition digit_val :: "char \<Rightarrow> nat" where
  "digit_val c = length (takeWhile (\<lambda>d. d \<noteq> c) ''0123456789'')"

definition digits_val :: "string \<Rightarrow> nat" where
  "digits_val ds = foldl (\<lambda>a c. 10 * a + digit_val c) 0 ds"

text \<open>\<open>value.replace(/[^0-9.-]+/g, '')\<close>.\<close>

definition strip_non_numeric :: "string \<Rightarrow> string" where
  "strip_non_numeric s = filter (\<lambda>c. is_digit c \<or> c = CHR ''.'' \<or> c = CHR ''-'') s"

text \<open>
  \<open>parseFloat\<close> on the alphabet the replacement leaves (digits, dot, minus), the only
  strings it is applied to: an optional minus, digits, an optional dot with digits, at
  least one digit in all; the longest such prefix is read, \<open>None\<close> is NaN.
\<close>

definition parseFloat :: "string \<Rightarrow> rat option" where
  "parseFloat s =
     (let neg = (s \<noteq> [] \<and> hd s = CHR ''-'');
          body = (if neg then tl s else s);
          ip = takeWhile is_digit body;
          rest = dropWhile is_digit body;
          fp = (if rest \<noteq> [] \<and> hd rest = CHR ''.'' then takeWhile is_digit (tl rest) else []);
          v = of_nat (digits_val ip) + of_nat (digits_val fp) / 10 ^ length fp
      in if ip = [] \<and> fp = [] then None
         else Some (if neg then - v else v))"

text \<open>
  The amount inside \<open>calculateInvoiceData\<close>:
  \<open>typeof v === 'number' ? v : parseFloat(String(v || '0').replace(...)) || 0\<close>.
  The closing \<open>|| 0\<close> turns NaN and 0 into 0, so the result is never NaN.
\<close>

definition paymentAmount :: "host \<Rightarrow> jsval \<Rightarrow> rat" where
  "paymentAmount h v =
     (case v of
        JNum x \<Rightarrow> x
      | _ \<Rightarrow> (case parseFloat (strip_non_numeric (js_String h (js_or v (JStr ''0'')))) of
                None \<Rightarrow> 0
              | Some x \<Rightarrow> if x \<noteq> 0 then x else 0))"

text \<open>The helper \<open>parsePaymentAmount\<close> used while rendering.\<close>

definition parsePaymentAmount :: "jsval \<Rightarrow> rat" where
  "parsePaymentAmount v =
     (case v of
        JNum x \<Rightarrow> x
      | JStr s \<Rightarrow> (case parseFloat (strip_non_numeric s) of None \<Rightarrow> 0 | Some parsed \<Rightarrow> parsed)
      | _ \<Rightarrow> 0)"

section \<open>Actualized revenue: \<open>calculateInvoiceData\<close>\<close>

record invoice =
  payment_amount_usd :: jsval
  invoice_date :: jsval
  invoice_month :: jsval
  invoice_year :: jsval
  invoice_month_name :: jsval

definition monthNumbers :: "(string \<times> rat) list" where
  "monthNumbers = [(''Jan'', 1), (''Feb'', 2), (''Mar'', 3), (''Apr'', 4), (''May'', 5), (''Jun'', 6),
                   (''Jul'', 7), (''Aug'', 8), (''Sep'', 9), (''Oct'', 10), (''Nov'', 11), (''Dec'', 12)]"

text \<open>\<open>Object.keys(monthNumbers).find(key => monthNumbers[key] === v)\<close>; \<open>None\<close> is undefined.\<close>

definition find_month :: "jsval \<Rightarrow> string option" where
  "find_month v = map_option fst (find (\<lambda>kn. JNum (snd kn) = v) monthNumbers)"

text \<open>The numeric reading of a cell under \<open>isNaN\<close>, \<open>>=\<close> and \<open><=\<close>; \<open>None\<close> is NaN.\<close>

fun ToNumber :: "host \<Rightarrow> jsval \<Rightarrow> rat option" where
  "ToNumber h JUndefined = None"
| "ToNumber h JNull = Some 0"
| "ToNumber h (JBool b) = Some (if b then 1 else 0)"
| "ToNumber h (JNum x) = Some x"
| "ToNumber h (JStr s) = StringToNumber h s"

definition js_isNaN :: "host \<Rightarrow> jsval \<Rightarrow> bool" where
  "js_isNaN h v = (ToNumber h v = None)"

definition js_ge :: "host \<Rightarrow> jsval \<Rightarrow> rat \<Rightarrow> bool" where
  "js_ge h v n = (case ToNumber h v of None \<Rightarrow> False | Some x \<Rightarrow> n \<le> x)"

definition js_le :: "host \<Rightarrow> jsval \<Rightarrow> rat \<Rightarrow> bool" where
  "js_le h v n = (case ToNumber h v of None \<Rightarrow> False | Some x \<Rightarrow> x \<le> n)"

text \<open>\<open>monthlyPayments[month] += paymentAmount\<close>.\<close>

definition add_to :: "string \<Rightarrow> rat \<Rightarrow> (string \<Rightarrow> rat) \<Rightarrow> (string \<Rightarrow> rat)" where
  "add_to month amount totals = totals(month := totals month + amount)"

text \<open>
  The three month rules of the loop body, each returning the totals it leaves.
  \<open>rule_fields\<close> also returns \<open>monthAdded\<close>, the only place that sets it.
\<close>

definition rule_fields :: "host \<Rightarrow> int \<Rightarrow> invoice \<Rightarrow> rat \<Rightarrow> (string \<Rightarrow> rat) \<Rightarrow> (string \<Rightarrow> rat) \<times> bool" where
  "rule_fields h y row amount totals =
     (let invoiceMonth = invoice_month row; invoiceYear = invoice_year row in
      if \<not> js_isNaN h invoiceMonth \<and> \<not> js_isNaN h invoiceYear \<and>
         js_ge h invoiceMonth 1 \<and> js_le h invoiceMonth 12 \<and>
         invoiceYear = JNum (of_int y)
      then (case find_month invoiceMonth of
              Some month \<Rightarrow> (add_to month amount totals, True)
            | None \<Rightarrow> (totals, False))
      else (totals, False))"

definition rule_date :: "int \<Rightarrow> (int \<times> nat) option \<Rightarrow> rat \<Rightarrow> bool \<Rightarrow> (string \<Rightarrow> rat) \<Rightarrow> (string \<Rightarrow> rat)" where
  "rule_date y invoiceDate amount monthAdded totals =
     (case invoiceDate of
        Some (fullYear, month0) \<Rightarrow>
          if \<not> monthAdded \<and> fullYear = y
          then (case find_month (JNum (of_nat month0 + 1)) of
                  Some month \<Rightarrow> add_to month amount totals
                | None \<Rightarrow> totals)
          else totals
      | None \<Rightarrow> totals)"

text \<open>
  \<open>substring\<close> exists on strings only: a truthy month name of another type throws, the
  \<open>catch\<close> of the loop body logs it, and the totals stay as the earlier rules left them.
\<close>

definition rule_month_name :: "int \<Rightarrow> invoice \<Rightarrow> rat \<Rightarrow> bool \<Rightarrow> (string \<Rightarrow> rat) \<Rightarrow> (string \<Rightarrow> rat)" where
  "rule_month_name y row amount monthAdded totals =
     (if \<not> monthAdded \<and> truthy (invoice_month_name row)
      then (case invoice_month_name row of
              JStr s \<Rightarrow>
                (let month = take 3 s in
                 if month \<in> set months \<and>
                    (\<not> truthy (invoice_year row) \<or> invoice_year row = JNum (of_int y))
                 then add_to month amount totals
                 else totals)
            | _ \<Rightarrow> totals)
      else totals)"

text \<open>
  One pass of \<open>invoiceData.forEach\<close>; a null entry of the array is \<open>None\<close>. \<open>invoiceDate\<close> is
  falsy when the date cell is falsy (never assigned) or parses to an invalid date.
\<close>

definition invoice_step :: "host \<Rightarrow> int \<Rightarrow> invoice option \<Rightarrow> (string \<Rightarrow> rat) \<Rightarrow> (string \<Rightarrow> rat)" where
  "invoice_step h y entry totals =
     (case entry of
        None \<Rightarrow> totals
      | Some row \<Rightarrow>
          if \<not> truthy (payment_amount_usd row) then totals
          else
            let invoiceDate = (if truthy (invoice_date row) then Date h (invoice_date row) else None);
                amount = paymentAmount h (payment_amount_usd row)
            in if amount \<le> 0 then totals
               else
                 let (totals1, monthAdded) = rule_fields h y row amount totals;
                     totals2 = rule_date y invoiceDate amount monthAdded totals1
                 in rule_month_name y row amount monthAdded totals2)"

text \<open>
  \<open>calculateInvoiceData\<close>: \<open>None\<close> is the early return on an empty invoice list, which
  leaves \<open>monthlyInvoiceData\<close> as it was; \<open>Some\<close> carries \<open>monthlyPaymentsArray\<close>.
\<close>

definition calculateInvoiceData :: "host \<Rightarrow> int \<Rightarrow> invoice option list \<Rightarrow> rat list option" where
  "calculateInvoiceData h y invoiceData =
     (if invoiceData = [] then None
      else Some (map (fold (invoice_step h y) invoiceData (\<lambda>_. 0)) months))"

section \<open>Actualized revenue as rendered\<close>

text \<open>\<open>String(rawDate).split(/[-/]/)\<close>.\<close>

fun split_date :: "string \<Rightarrow> string list" where
  "split_date [] = [[]]"
| "split_date (c # cs) =
     (if c = CHR ''-'' \<or> c = CHR ''/'' then [] # split_date cs
      else (case split_date cs of
              w # ws \<Rightarrow> (c # w) # ws
            | [] \<Rightarrow> [[c]]))"

text \<open>The month recovered from the text of a date that did not parse.\<close>

definition recover_month :: "host \<Rightarrow> string \<Rightarrow> string option" where
  "recover_month h raw =
     (let dateParts = split_date raw in
      if length dateParts \<ge> 3 then
        (case filter (\<lambda>p. length p = 4 \<and> ParseInt h p \<noteq> None) dateParts of
           [] \<Rightarrow> None
         | firstYear # _ \<Rightarrow>
             if ParseInt h firstYear = Some 2025 then
               (let nonYearParts = filter (\<lambda>p. p \<noteq> firstYear) dateParts in
                if length nonYearParts \<ge> 2 then
                  (case ParseInt h (nonYearParts ! 0) of
                     Some possibleMonth \<Rightarrow>
                       if 1 \<le> possibleMonth \<and> possibleMonth \<le> 12
                       then find_month (JNum (of_int possibleMonth))
                       else None
                   | None \<Rightarrow> None)
                else None)
             else None)
      else None)"

text \<open>The month taken from the name or number cells when the year cell says 2025.\<close>

definition month_of_fields :: "host \<Rightarrow> invoice \<Rightarrow> string option" where
  "month_of_fields h row =
     (if truthy (invoice_month_name row) then
        (case invoice_month_name row of JStr s \<Rightarrow> Some (take 3 s) | _ \<Rightarrow> None)
      else if truthy (invoice_month row) then
        (case ParseInt h (js_String h (invoice_month row)) of
           Some monthNum \<Rightarrow>
             if 1 \<le> monthNum \<and> monthNum \<le> 12 then find_month (JNum (of_int monthNum)) else None
         | None \<Rightarrow> None)
      else None)"

text \<open>
  One pass of the loop in the render body. It is written for the year 2025 and adds
  whatever \<open>parsePaymentAmount\<close> returns; an entry that throws is caught and skipped.
\<close>

definition render_step :: "host \<Rightarrow> invoice option \<Rightarrow> (string \<Rightarrow> rat) \<Rightarrow> (string \<Rightarrow> rat)" where
  "render_step h entry totals =
     (case entry of
        None \<Rightarrow> totals
      | Some row \<Rightarrow>
          (case Date h (invoice_date row) of
             None \<Rightarrow>
               (case recover_month h (js_String h (invoice_date row)) of
                  Some month \<Rightarrow> add_to month (parsePaymentAmount (payment_amount_usd row)) totals
                | None \<Rightarrow> totals)
           | Some (fullYear, month0) \<Rightarrow>
               (let amount = parsePaymentAmount (payment_amount_usd row) in
                if fullYear = 2025 then
                  (case find_month (JNum (of_nat month0 + 1)) of
                     Some month \<Rightarrow> add_to month amount totals
                   | None \<Rightarrow> totals)
                else if invoice_year row = JNum 2025 \<or> invoice_year row = JStr ''2025'' then
                  (case month_of_fields h row of
                     Some month \<Rightarrow>
                       if month \<noteq> [] \<and> month \<in> set months then add_to month amount totals else totals
                   | None \<Rightarrow> totals)
                else totals)))"

text \<open>\<open>actualizedMonthlyRevenue\<close>, the array the comparison chart shows.\<close>

definition actualizedMonthlyRevenue :: "host \<Rightarrow> invoice option list \<Rightarrow> rat list" where
  "actualizedMonthlyRevenue h invoiceData = map (fold (render_step h) invoiceData (\<lambda>_. 0)) months"

section \<open>Status distribution\<close>





section \<open>A host for running the model\<close>

text \<open>
  A host that reads the one date text used in the examples below as 15 March 2025 and
  knows no other text; of the inherited functions it knows \<open>constructor\<close>.
\<close>

definition test_host :: host where
  "test_host =
     \<lparr>Date = (\<lambda>v. if v = JStr ''2025-03-15'' then Some (2025, 2) else None),
      StringToNumber = (\<lambda>s. None),
      NumberToString = (\<lambda>x. ''0''),
      ParseInt = (\<lambda>s. None),
      PrototypeText = (\<lambda>s. if s = ''constructor''
                             then Some ''function Object() { [native code] }'' else None)\<rparr>"

section \<open>What the specification speaks of\<close>

text \<open>
  The value of a field when it is numeric, 0 when the field is absent or holds anything
  else; and its sum over a list of rows.
\<close>

definition numeric_value :: "project \<Rightarrow> string \<Rightarrow> rat" where
  "numeric_value p k = (case p k of Some (JNum v) \<Rightarrow> v | _ \<Rightarrow> 0)"

definition field_sum :: "project list \<Rightarrow> string \<Rightarrow> rat" where
  "field_sum rows k = sum_list (map (\<lambda>p. numeric_value p k) rows)"

text \<open>What a reader of \<open>monthlyData.monthlyRevenue[i]\<close> gets once the effect has run.\<close>

definition expectedRevenue :: "int \<Rightarrow> project list \<Rightarrow> nat \<Rightarrow> rat option" where
  "expectedRevenue y data i =
     (case calculateMonthlyData y data of
        None \<Rightarrow> None
      | Some md \<Rightarrow> nth_or_undefined (monthlyRevenue md) i)"






text \<open>The quarterly totals that belong to a year: the rollup of that year's monthly array.\<close>

definition quarterly_of_year :: "int \<Rightarrow> project list \<Rightarrow> rat option list option" where
  "quarterly_of_year y data =
     (case calculateMonthlyData y data of
        None \<Rightarrow> None
      | Some md \<Rightarrow> map_option quarterlyRevenue (calculateQuarterlyData (monthlyRevenue md)))"









subsection \<open>Rows used in the examples\<close>

definition first_P1 :: project where
  "first_P1 = [''Project Code'' \<mapsto> JStr ''P1'', ''2025 Jan'' \<mapsto> JNum 100]"

definition second_P1 :: project where
  "second_P1 = [''Project Code'' \<mapsto> JStr ''P1'', ''2025 Jan'' \<mapsto> JNum 900]"

definition two_year_project :: project where
  "two_year_project =
     [''Project Code'' \<mapsto> JStr ''P1'', ''2024 Jan'' \<mapsto> JNum 100, ''2025 Jan'' \<mapsto> JNum 243500]"





definition blank_invoice :: invoice where
  "blank_invoice =
     \<lparr>payment_amount_usd = JUndefined, invoice_date = JUndefined, invoice_month = JUndefined,
      invoice_year = JUndefined, invoice_month_name = JUndefined\<rparr>"

definition dated_named_invoice :: invoice where
  "dated_named_invoice =
     blank_invoice\<lparr>payment_amount_usd := JNum 100, invoice_date := JStr ''2025-03-15'',
                   invoice_month_name := JStr ''March''\<rparr>"

definition negative_invoice :: invoice where
  "negative_invoice =
     blank_invoice\<lparr>payment_amount_usd := JNum (- 500), invoice_date := JStr ''2025-03-15''\<rparr>"





definition fields_invoice :: invoice where
  "fields_invoice =
     blank_invoice\<lparr>payment_amount_usd := JNum 500, invoice_date := JStr ''2025-03-15'',
                   invoice_month := JNum 3, invoice_year := JNum 2025,
                   invoice_month_name := JStr ''April''\<rparr>"

section \<open>Lemmas\<close>


lemma distinct_months: "distinct months"
  by (simp add: months_def)

lemma year_2025_text: "string_of_int 2025 = ''2025''"
  by code_simp

lemma year_2024_text: "string_of_int 2024 = ''2024''"
  by code_simp

subsection \<open>Running totals\<close>



subsection \<open>Monthly totals are sums of numeric fields\<close>

lemma add_month_apply:
  "add_month y p month t m =
     (if m = month then t m + numeric_value p (exactFieldName y month) else t m)"
  by (simp add: add_month_def numeric_value_def split: option.splits jsval.splits)

lemma fold_add_month:
  "distinct ms \<Longrightarrow>
   fold (add_month y p) ms t m =
     t m + (if m \<in> set ms then numeric_value p (exactFieldName y m) else 0)"
proof (induction ms arbitrary: t)
  case Nil
  then show ?case by simp
next
  case (Cons a ms)
  then show ?case by (auto simp: add_month_apply)
qed

lemma add_project_apply:
  "add_project y p t m =
     t m + (if m \<in> set months then numeric_value p (exactFieldName y m) else 0)"
  unfolding add_project_def by (rule fold_add_month [OF distinct_months])

lemma fold_add_project:
  "fold (add_project y) wd t m =
     t m + (if m \<in> set months then field_sum wd (exactFieldName y m) else 0)"
  by (induction wd arbitrary: t) (simp_all add: add_project_apply field_sum_def)

lemma monthlyTotals_sum:
  "m \<in> set months \<Longrightarrow> monthlyTotals y wd m = field_sum wd (exactFieldName y m)"
  by (simp add: monthlyTotals_def fold_add_project)





subsection \<open>Deduplication\<close>

lemma dedup_loop_filter:
  "filter (\<lambda>p. get_field p ''Project Code'' = c) (dedup_loop seen ps) =
     (if truthy c
      then (if c \<in> seen then [] else take 1 (filter (\<lambda>p. get_field p ''Project Code'' = c) ps))
      else filter (\<lambda>p. get_field p ''Project Code'' = c) ps)"
  by (induction ps arbitrary: seen) (auto simp: Let_def)

lemma dedup_loop_subseq: "subseq (dedup_loop seen ps) ps"
  by (induction ps arbitrary: seen) (auto simp: Let_def)

subsection \<open>Addition of doubles\<close>

lemma binade_up_spec:
  "k \<le> e \<Longrightarrow> e \<le> 1023 \<Longrightarrow> 2 powi e \<le> a \<Longrightarrow> a < 2 powi (e + 1) \<Longrightarrow> binade_up a k = e"
proof (induction a k rule: binade_up.induct)
  case (1 a k)
  show ?case
  proof (cases "k = e")
    case True
    with "1.prems" show ?thesis by (subst binade_up.simps) simp
  next
    case False
    with "1.prems" have lt: "k < e" by simp
    then have "(2::rat) powi (k + 1) \<le> 2 powi e" by (intro power_int_increasing) simp_all
    with "1.prems" have c: "k < 1023 \<and> 2 powi (k + 1) \<le> a" using lt by simp
    from "1.IH" [OF c] lt "1.prems" have "binade_up a (k + 1) = e" by simp
    with c show ?thesis by (subst binade_up.simps) simp
  qed
qed

lemma binade_down_spec:
  "e \<le> k \<Longrightarrow> - 1022 \<le> e \<Longrightarrow> 2 powi e \<le> a \<Longrightarrow> a < 2 powi (e + 1) \<Longrightarrow> binade_down a k = e"
proof (induction a k rule: binade_down.induct)
  case (1 a k)
  show ?case
  proof (cases "k = e")
    case True
    with "1.prems" show ?thesis by (subst binade_down.simps) simp
  next
    case False
    with "1.prems" have lt: "e < k" by simp
    then have "(2::rat) powi (e + 1) \<le> 2 powi k" by (intro power_int_increasing) simp_all
    with "1.prems" have c: "- 1022 < k \<and> a < 2 powi k" using lt by simp
    from "1.IH" [OF c] lt "1.prems" have "binade_down a (k - 1) = e" by simp
    with c show ?thesis by (subst binade_down.simps) simp
  qed
qed

lemma binade_spec:
  assumes "- 1022 \<le> e" and "e \<le> 1023" and "2 powi e \<le> a" and "a < 2 powi (e + 1)"
  shows "binade a = e"
proof (cases "1 \<le> a")
  case True
  have "0 \<le> e"
  proof (rule ccontr)
    assume "\<not> 0 \<le> e"
    then have "e + 1 \<le> 0" by simp
    then have "(2::rat) powi (e + 1) \<le> 2 powi 0" by (intro power_int_increasing) simp_all
    with assms(4) True show False by simp
  qed
  with True assms show ?thesis by (simp add: binade_def binade_up_spec)
next
  case False
  have "e \<le> 0"
  proof (rule ccontr)
    assume "\<not> e \<le> 0"
    then have "0 \<le> e" by simp
    then have "(2::rat) powi 0 \<le> 2 powi e" by (intro power_int_increasing) simp_all
    with assms(3) False show False by simp
  qed
  with False assms show ?thesis by (simp add: binade_def binade_down_spec)
qed

lemma round_half_even_of_int: "round_half_even (of_int n) = n"
  by (simp add: round_half_even_def)

lemma double_round_of_int:
  fixes n :: int
  assumes "\<bar>n\<bar> < 2 ^ 53"
  shows "double_round (of_int n) = Some (of_int n)"
proof (cases "n = 0")
  case True
  then show ?thesis by (simp add: double_round_def)
next
  case False
  define k where "k = nat \<bar>n\<bar>"
  have k: "int k = \<bar>n\<bar>" and k1: "1 \<le> k" using False by (simp_all add: k_def)
  from assms k have k53: "k < 2 ^ 53" by (simp add: k_def nat_less_iff)
  from ex_power_ivl1 [OF _ k1, of 2] obtain m
    where m: "2 ^ m \<le> k" "k < 2 ^ (m + 1)" by auto
  from m(1) k53 have "(2::nat) ^ m < 2 ^ 53" by simp
  then have "m < 53" by (rule power_less_imp_less_exp [rotated]) simp
  then have m52: "m \<le> 52" by simp
  let ?a = "\<bar>of_int n :: rat\<bar>"
  have a: "?a = of_nat k"
  proof -
    have "?a = of_int \<bar>n\<bar>" by simp
    also have "\<dots> = of_int (int k)" by (simp only: k)
    also have "\<dots> = of_nat k" by simp
    finally show ?thesis .
  qed
  have lo: "2 powi int m \<le> ?a"
  proof -
    from m(1) have "(of_nat (2 ^ m) :: rat) \<le> of_nat k" by (simp only: of_nat_le_iff)
    then show ?thesis unfolding a power_int_of_nat by simp
  qed
  have hi: "?a < 2 powi (int m + 1)"
  proof -
    from m(2) have "(of_nat k :: rat) < of_nat (2 ^ (m + 1))" by (simp only: of_nat_less_iff)
    moreover have "int m + 1 = int (m + 1)" by simp
    ultimately show ?thesis unfolding a by (simp only: power_int_of_nat) simp
  qed
  have b: "binade ?a = int m"
    by (rule binade_spec [OF _ _ lo hi]) (use m52 in simp_all)
  have ulp: "(2::rat) powi (int m - 52) = 1 / 2 ^ (52 - m)"
  proof -
    have "int m - 52 = - int (52 - m)" using m52 by simp
    then have "(2::rat) powi (int m - 52) = 2 powi (- int (52 - m))" by (rule arg_cong)
    also have "\<dots> = 1 / 2 ^ (52 - m)" by (simp only: power_int_minus_divide power_int_of_nat)
    finally show ?thesis .
  qed
  have q: "?a / (1 / 2 ^ (52 - m)) = of_int (int (k * 2 ^ (52 - m)))" unfolding a by simp
  have r: "of_int (round_half_even (?a / (1 / 2 ^ (52 - m)))) * (1 / 2 ^ (52 - m)) = ?a"
    unfolding q round_half_even_of_int unfolding a by simp
  have small: "\<not> (2::rat) powi 1024 \<le> ?a"
  proof -
    from k53 have "(of_nat k :: rat) < of_nat (2 ^ 53)" by (simp only: of_nat_less_iff)
    then have "?a < 2 ^ 53" unfolding a by simp
    moreover have "(2::rat) ^ 53 \<le> 2 powi 1024" by simp
    ultimately show ?thesis by simp
  qed
  have neq: "(of_int n :: rat) \<noteq> 0" using False by simp
  have sg: "(if (of_int n :: rat) < 0 then - ?a else ?a) = of_int n" by simp
  show ?thesis
    unfolding double_round_def Let_def b ulp r
    using small neq sg by simp
qed




lemma js_plus_of_int:
  fixes a b :: int
  assumes "\<bar>a + b\<bar> < 2 ^ 53"
  shows "js_plus (Some (of_int a)) (Some (of_int b)) = Some (of_int (a + b))"
  using double_round_of_int [OF assms] by simp

lemma js_plus_whole:
  assumes "x \<in> \<int>" and "y \<in> \<int>" and "\<bar>x + y\<bar> < 2 ^ 53"
  shows "js_plus (Some x) (Some y) = Some (x + y)"
proof -
  from assms(1,2) obtain a b :: int where x: "x = of_int a" and y: "y = of_int b"
    by (auto elim!: Ints_cases)
  from assms(3) have "\<bar>rat_of_int (a + b)\<bar> < of_int (2 ^ 53)" unfolding x y by simp
  then have "\<bar>a + b\<bar> < 2 ^ 53" by (simp only: of_int_abs [symmetric] of_int_less_iff)
  from js_plus_of_int [OF this] show ?thesis unfolding x y by simp
qed



subsection \<open>Quarterly rollup of a twelve-month array\<close>








subsection \<open>Status counts\<close>








subsection \<open>Each invoice entry adds its contribution\<close>











subsection \<open>The example rows, evaluated\<close>

lemma computedRevenue_expand:
  "computedRevenue y data = map (\<lambda>m. field_sum (uniqueData data) (exactFieldName y m)) months"
  by (simp add: computedRevenue_def monthlyTotals_sum)

lemma field_name_2024: "exactFieldName 2024 m = ''2024 '' @ m"
  by (simp add: exactFieldName_def year_2024_text)

lemma field_name_2025: "exactFieldName 2025 m = ''2025 '' @ m"
  by (simp add: exactFieldName_def year_2025_text)

lemma unique_two_year: "uniqueData [two_year_project] = [two_year_project]"
  by (simp add: uniqueData_def get_field_def two_year_project_def)

lemma numeric_two_year:
  "numeric_value two_year_project k =
     (if k = ''2025 Jan'' then 243500 else if k = ''2024 Jan'' then 100 else 0)"
  by (simp add: numeric_value_def two_year_project_def)

lemma computed_two_year_2024:
  "computedRevenue 2024 [two_year_project] = [100, 0, 0, 0, 0, 0, 0, 0, 0, 0, 0, 0]"
  by (simp add: computedRevenue_expand unique_two_year field_name_2024 months_def field_sum_def
      numeric_two_year)

lemma computed_two_year_2025:
  "computedRevenue 2025 [two_year_project] = [243500, 0, 0, 0, 0, 0, 0, 0, 0, 0, 0, 0]"
  by (simp add: computedRevenue_expand unique_two_year field_name_2025 months_def field_sum_def
      numeric_two_year)

lemma monthly_two_year_2024:
  "calculateMonthlyData 2024 [two_year_project] =
     Some \<lparr>monthlyRevenue = [100, 0, 0, 0, 0, 0, 0, 0, 0, 0, 0, 0],
           cumulativeRevenue = [100, 100, 100, 100, 100, 100, 100, 100, 100, 100, 100, 100]\<rparr>"
  by (simp add: calculateMonthlyData_def override_fires_def computed_two_year_2024)

lemma monthly_two_year_2025:
  "calculateMonthlyData 2025 [two_year_project] =
     Some \<lparr>monthlyRevenue = [243500, 0, 0, 0, 0, 0, 0, 0, 0, 0, 0, 0],
           cumulativeRevenue = [243500, 243500, 243500, 243500, 243500, 243500,
                                243500, 243500, 243500, 243500, 243500, 243500]\<rparr>"
  by (simp add: calculateMonthlyData_def override_fires_def computed_two_year_2025)

lemma numeric_first_P1: "numeric_value first_P1 k = (if k = ''2025 Jan'' then 100 else 0)"
  by (simp add: numeric_value_def first_P1_def)

lemma unique_P1_pair: "uniqueData [first_P1, second_P1] = [first_P1]"
  by (simp add: uniqueData_def get_field_def first_P1_def second_P1_def)


lemma computed_P1_pair_2025:
  "computedRevenue 2025 [first_P1, second_P1] = [100, 0, 0, 0, 0, 0, 0, 0, 0, 0, 0, 0]"
  by (simp add: computedRevenue_expand unique_P1_pair field_name_2025 months_def field_sum_def
      numeric_first_P1)



lemma find_month_3: "find_month (JNum 3) = Some ''Mar''"
  by (simp add: find_month_def monthNumbers_def)

lemma months_map:
  "map f months = [f ''Jan'', f ''Feb'', f ''Mar'', f ''Apr'', f ''May'', f ''Jun'',
                   f ''Jul'', f ''Aug'', f ''Sep'', f ''Oct'', f ''Nov'', f ''Dec'']"
  by (simp add: months_def)

lemma Mar_in_months: "''Mar'' \<in> set months"
  by (simp add: months_def)

lemma amount_dollars: "paymentAmount h (JStr ''$1,200.50'') = 2401 / 2"
  by (simp add: paymentAmount_def js_or_def strip_non_numeric_def is_digit_def parseFloat_def
      digits_val_def digit_val_def)

lemma amount_na: "paymentAmount h (JStr ''N/A'') = 0"
  by (simp add: paymentAmount_def js_or_def strip_non_numeric_def is_digit_def parseFloat_def
      digits_val_def digit_val_def)

lemma parse_dollars: "parsePaymentAmount (JStr ''$1,200.50'') = 2401 / 2"
  by (simp add: parsePaymentAmount_def strip_non_numeric_def is_digit_def parseFloat_def
      digits_val_def digit_val_def)

lemma parse_na: "parsePaymentAmount (JStr ''N/A'') = 0"
  by (simp add: parsePaymentAmount_def strip_non_numeric_def is_digit_def parseFloat_def
      digits_val_def digit_val_def)

lemma non_positive_excluded:
  "\<not> truthy (payment_amount_usd row) \<or> paymentAmount h (payment_amount_usd row) \<le> 0 \<Longrightarrow>
   invoice_step h y (Some row) totals = totals"
  by (auto simp: invoice_step_def Let_def)

lemma step_dated_named:
  assumes "Date h (JStr ''2025-03-15'') = Some (2025, 2)"
  shows "invoice_step h 2025 (Some dated_named_invoice) totals =
     add_to ''Mar'' 100 (add_to ''Mar'' 100 totals)"
  using assms
  by (simp add: invoice_step_def dated_named_invoice_def blank_invoice_def paymentAmount_def
      rule_fields_def js_isNaN_def rule_date_def rule_month_name_def find_month_3 Mar_in_months)

lemma step_fields:
  "invoice_step h 2025 (Some fields_invoice) totals = add_to ''Mar'' 500 totals"
  by (simp add: invoice_step_def fields_invoice_def blank_invoice_def paymentAmount_def
      rule_fields_def js_isNaN_def js_ge_def js_le_def rule_date_def rule_month_name_def
      find_month_3 split: option.splits)

lemma run_effects_quarterly_year:
  "quarterlyData (run_effects data (c\<lparr>selectedYearQuarterly := yq\<rparr>)) =
   quarterlyData (run_effects data c)"
  by (simp add: run_effects_def monthly_effect_def quarterly_effect_def split: option.splits)




lemma plus_0_0: "js_plus (Some 0) (Some 0) = Some 0"
  by (simp add: double_round_def)










lemma plus_whole_243500: "js_plus (Some 243500) (Some 0) = Some 243500"
  using js_plus_whole [of 243500 0] by simp

lemma plus_whole_100: "js_plus (Some 100) (Some 0) = Some 100"
  using js_plus_whole [of 100 0] by simp

lemma plus_whole_0_243500: "js_plus (Some 0) (Some 243500) = Some 243500"
  using js_plus_whole [of 0 243500] by simp

lemma plus_whole_0_100: "js_plus (Some 0) (Some 100) = Some 100"
  using js_plus_whole [of 0 100] by simp

section \<open>The claims\<close>

subsection \<open>C1: the order of the month rules\<close>

text \<open>
  C1. The rules are tried in the order fields, date, month name, and a month assigned by
  the fields rule ends the search: an invoice of 500 with month 3 and year 2025, the date
  15 March 2025 and the month name April adds 500 to March alone. The date rule, however,
  does not record that it assigned a month: for an invoice of 100 dated 15 March 2025
  whose month name is March and which has no month and year cells, the date rule and the
  month name rule both add the amount, and the March total of the run for 2025 is 200.
\<close>

theorem date_and_month_name_both_add:
  assumes "Date h (JStr ''2025-03-15'') = Some (2025, 2)"
  shows "paymentAmount h (payment_amount_usd dated_named_invoice) = 100
   \<and> calculateInvoiceData h 2025 [Some dated_named_invoice]
       = Some [0, 0, 200, 0, 0, 0, 0, 0, 0, 0, 0, 0]
   \<and> calculateInvoiceData h 2025 [Some fields_invoice]
       = Some [0, 0, 500, 0, 0, 0, 0, 0, 0, 0, 0, 0]"
  by (simp add: calculateInvoiceData_def step_dated_named [OF assms] step_fields months_map
      add_to_def)
     (simp add: dated_named_invoice_def blank_invoice_def paymentAmount_def)

theorem date_and_month_name_both_add_witness:
  "Date test_host (JStr ''2025-03-15'') = Some (2025, 2)
   \<and> calculateInvoiceData test_host 2025 [Some dated_named_invoice]
       = Some [0, 0, 200, 0, 0, 0, 0, 0, 0, 0, 0, 0]"
proof -
  have d: "Date test_host (JStr ''2025-03-15'') = Some (2025, 2)" by (simp add: test_host_def)
  from date_and_month_name_both_add [OF d] d show ?thesis by simp
qed

subsection \<open>C2: quarterly totals come from the monthly array\<close>




subsection \<open>C3: first occurrence of a project code wins\<close>

theorem published_january_is_override_counterexample:
  "expectedRevenue 2025 [first_P1, second_P1] 0 = Some 243500
   \<and> expectedRevenue 2025 [first_P1, second_P1] 0 \<noteq> Some 100"
  by (simp add: expectedRevenue_def calculateMonthlyData_def override_fires_def
      computed_P1_pair_2025 correctValues_def nth_or_undefined_def)

text \<open>
  C3, amended. \<open>uniqueData\<close> keeps the rows in their order; of the rows that carry a given
  truthy project code it keeps the first one only, and it keeps every row whose code is
  absent, empty or otherwise falsy. For the two rows with code P1 and January 2025 values
  100 and 900, only the first row is left and the January 2025 total computed from the
  deduplicated rows is 100. (What \<open>calculateMonthlyData\<close> publishes for that input is the
  override value 243500, as the counterexample shows.)
\<close>

theorem first_occurrence_wins:
  "subseq (uniqueData data) data
   \<and> filter (\<lambda>p. get_field p ''Project Code'' = c) (uniqueData data) =
       (if truthy c then take 1 (filter (\<lambda>p. get_field p ''Project Code'' = c) data)
        else filter (\<lambda>p. get_field p ''Project Code'' = c) data)
   \<and> uniqueData [first_P1, second_P1] = [first_P1]
   \<and> computedRevenue 2025 [first_P1, second_P1] ! 0 = 100"
  by (simp add: uniqueData_def [of data] dedup_loop_filter dedup_loop_subseq unique_P1_pair
      computed_P1_pair_2025)

theorem first_occurrence_wins_witness:
  "filter (\<lambda>p. get_field p ''Project Code'' = JStr ''P1'') (uniqueData [first_P1, second_P1])
     = [first_P1]
   \<and> computedRevenue 2025 [first_P1, second_P1] ! 0 = 100"
  using first_occurrence_wins [of "[first_P1, second_P1]" "JStr ''P1''"]
  by (simp add: get_field_def first_P1_def second_P1_def)

subsection \<open>C4: the year of the quarterly view\<close>

text \<open>
  C4. The quarterly state does not depend on \<open>selectedYearQuarterly\<close>. With the monthly
  view on 2025 and the quarterly view on 2024, for one project with 100 in January 2024
  and 243500 in January 2025, the quarterly totals shown are those of 2025
  (243500, 0, 0, 0), while the rollup of the monthly revenue of 2024 is (100, 0, 0, 0).
\<close>

theorem quarterly_year_not_honoured:
  "quarterlyData (run_effects data (c\<lparr>selectedYearQuarterly := yq\<rparr>)) = quarterlyData (run_effects data c)
   \<and> quarterlyRevenue (quarterlyData (run_effects [two_year_project] (initial_component 2025 2024)))
       = [Some 243500, Some 0, Some 0, Some 0]
   \<and> quarterly_of_year 2024 [two_year_project] = Some [Some 100, Some 0, Some 0, Some 0]
   \<and> quarterly_of_year 2025 [two_year_project] = Some [Some 243500, Some 0, Some 0, Some 0]"
  by (simp add: run_effects_quarterly_year)
     (simp add: run_effects_def monthly_effect_def quarterly_effect_def initial_component_def
      quarterly_of_year_def monthly_two_year_2024 monthly_two_year_2025
      calculateQuarterlyData_def nth_or_undefined_def Let_def
      plus_0_0 plus_whole_243500 plus_whole_100 plus_whole_0_243500 plus_whole_0_100
      del: js_plus.simps)

subsection \<open>C5: the emergency override\<close>



subsection \<open>C6: monthly totals and their running sums\<close>




subsection \<open>C7: payment amounts\<close>

text \<open>
  C7. Both readers of an amount take a number as it is and read the text \<open>$1,200.50\<close> as
  1200.50 and the text \<open>N/A\<close> as 0. An invoice of -500 dated 15 March 2025 is left out by
  \<open>calculateInvoiceData\<close>, whose totals for 2025 stay 0, but the loop of the render body,
  which reads amounts through \<open>parsePaymentAmount\<close> and has no test on the sign, subtracts
  500 from the March total it shows.
\<close>

theorem negative_amount_is_rendered:
  assumes "Date h (JStr ''2025-03-15'') = Some (2025, 2)"
  shows "actualizedMonthlyRevenue h [Some negative_invoice]
       = [0, 0, - 500, 0, 0, 0, 0, 0, 0, 0, 0, 0]
   \<and> calculateInvoiceData h 2025 [Some negative_invoice]
       = Some [0, 0, 0, 0, 0, 0, 0, 0, 0, 0, 0, 0]
   \<and> paymentAmount h (JNum x) = x \<and> parsePaymentAmount (JNum x) = x
   \<and> paymentAmount h (JStr ''$1,200.50'') = 2401 / 2
   \<and> parsePaymentAmount (JStr ''$1,200.50'') = 2401 / 2
   \<and> paymentAmount h (JStr ''N/A'') = 0 \<and> parsePaymentAmount (JStr ''N/A'') = 0"
proof -
  have n: "paymentAmount h (JNum x) = x \<and> parsePaymentAmount (JNum x) = x"
    by (simp add: paymentAmount_def parsePaymentAmount_def)
  have r: "render_step h (Some negative_invoice) (\<lambda>_. 0) = add_to ''Mar'' (- 500) (\<lambda>_. 0)"
    using assms
    by (simp add: render_step_def negative_invoice_def blank_invoice_def parsePaymentAmount_def
        find_month_3)
  have c: "invoice_step h 2025 (Some negative_invoice) (\<lambda>_. 0) = (\<lambda>_. 0)"
    by (rule non_positive_excluded)
       (simp add: negative_invoice_def blank_invoice_def paymentAmount_def)
  show ?thesis
    using n
    by (simp add: actualizedMonthlyRevenue_def calculateInvoiceData_def r c months_map add_to_def
        amount_dollars parse_dollars amount_na parse_na)
qed

theorem negative_amount_is_rendered_witness:
  "Date test_host (JStr ''2025-03-15'') = Some (2025, 2)
   \<and> actualizedMonthlyRevenue test_host [Some negative_invoice] ! 2 = - 500"
proof -
  have d: "Date test_host (JStr ''2025-03-15'') = Some (2025, 2)" by (simp add: test_host_def)
  from negative_amount_is_rendered [OF d] d show ?thesis by simp
qed

subsection \<open>C8: bad rows do not stop the batch\<close>




subsection \<open>C9: status distribution\<close>




subsection \<open>C10: a month name without a year counts for every year\<close>



end
